theory Spec2Isabelle
  imports Complex_Main
begin

section \<open>Runtime notions used by the code\<close>

subsection \<open>Strings\<close>

text \<open>
  Strings are lists of characters. The string methods the TypeScript sources call are
  written out: \<open>startsWith\<close>, \<open>includes\<close> (here \<open>includes_str\<close>), \<open>split\<close> on a one-character separator
  (which always yields at least one piece), \<open>trim\<close> and \<open>join\<close>. A character is a
  code unit below 256. White space, for \<open>trim\<close> and for \<open>parseFloat\<close>, is JavaScript's
  white space and line terminators in that range: space, tab, line feed, vertical tab, form
  feed, carriage return and the no-break space U+00A0.
\<close>

fun startsWith :: "string \<Rightarrow> string \<Rightarrow> bool" where
  "startsWith s [] = True"
| "startsWith [] (p # ps) = False"
| "startsWith (c # cs) (p # ps) = (c = p \<and> startsWith cs ps)"

fun includes_str :: "string \<Rightarrow> string \<Rightarrow> bool" where
  "includes_str [] p = (p = [])"
| "includes_str (c # cs) p = (startsWith (c # cs) p \<or> includes_str cs p)"

fun split_where :: "(char \<Rightarrow> bool) \<Rightarrow> string \<Rightarrow> string list" where
  "split_where sep [] = [[]]"
| "split_where sep (c # cs) =
     (if sep c then [] # split_where sep cs
      else (case split_where sep cs of [] \<Rightarrow> [[c]] | x # xs \<Rightarrow> (c # x) # xs))"

definition split_on :: "char \<Rightarrow> string \<Rightarrow> string list" where
  "split_on d s = split_where (\<lambda>c. c = d) s"

definition is_space :: "char \<Rightarrow> bool" where
  "is_space c \<longleftrightarrow>
     c \<in> {CHR '' '', CHR 0x09, CHR 0x0A, CHR 0x0B, CHR 0x0C, CHR 0x0D, CHR 0xA0}"

definition trim :: "string \<Rightarrow> string" where
  "trim s = rev (dropWhile is_space (rev (dropWhile is_space s)))"

fun join :: "string \<Rightarrow> string list \<Rightarrow> string" where
  "join sep [] = []"
| "join sep [x] = x"
| "join sep (x # y # ys) = x @ sep @ join sep (y # ys)"

subsection \<open>Numbers\<close>

text \<open>
  A JavaScript number is modelled as an exact rational, one of the two infinities, or
  \<open>NaN\<close>. Rounding to binary64 and overflow of a long literal to infinity are not
  modelled: the numbers the code handles are short
  decimals and quotients of two array lengths, compared with the constants 0.7 and 0.8, and on
  those the exact comparison and the rounded one agree. What is modelled exactly is where the
  code leaves the rationals: \<open>0 / 0\<close> is \<open>NaN\<close>, and every comparison with \<open>NaN\<close> is false.
\<close>

datatype jsnum = Num rat | PosInf | NegInf | NaN

fun js_lt :: "jsnum \<Rightarrow> jsnum \<Rightarrow> bool" where
  "js_lt (Num a) (Num b) = (a < b)"
| "js_lt (Num a) PosInf = True"
| "js_lt NegInf (Num b) = True"
| "js_lt NegInf PosInf = True"
| "js_lt _ _ = False"

definition js_gt :: "jsnum \<Rightarrow> jsnum \<Rightarrow> bool" where
  "js_gt a b = js_lt b a"

definition js_ge :: "jsnum \<Rightarrow> jsnum \<Rightarrow> bool" where
  "js_ge a b = (a \<noteq> NaN \<and> b \<noteq> NaN \<and> \<not> js_lt a b)"

text \<open>The quotient of two array lengths, as \<open>xs.length / ys.length\<close> computes it.\<close>

definition js_div_len :: "nat \<Rightarrow> nat \<Rightarrow> jsnum" where
  "js_div_len n d =
     (if d = 0 then (if n = 0 then NaN else PosInf) else Num (of_nat n / of_nat d))"

definition js_neg :: "jsnum \<Rightarrow> jsnum" where
  "js_neg x = (case x of Num q \<Rightarrow> Num (- q) | PosInf \<Rightarrow> NegInf | NegInf \<Rightarrow> PosInf | NaN \<Rightarrow> NaN)"

subsection \<open>parseFloat\<close>

text \<open>
  \<open>parseFloat\<close> skips leading white space and reads the longest prefix that is a decimal
  literal: an optional sign, then \<open>Infinity\<close> or digits with an optional fraction and an
  optional exponent. Whatever follows is ignored; with no such prefix the result is \<open>NaN\<close>.
\<close>

definition is_digit :: "char \<Rightarrow> bool" where
  "is_digit c \<longleftrightarrow> c \<in> set ''0123456789''"

definition digit_val :: "char \<Rightarrow> nat" where
  "digit_val c = of_char c - 48"

definition digits_nat :: "string \<Rightarrow> nat" where
  "digits_nat ds = foldl (\<lambda>n c. 10 * n + digit_val c) 0 ds"

text \<open>The exponent part: \<open>e\<close> or \<open>E\<close>, an optional sign, at least one digit; otherwise none.\<close>

definition exponent_factor :: "string \<Rightarrow> rat" where
  "exponent_factor r =
     (case r of
        [] \<Rightarrow> 1
      | c # t \<Rightarrow>
          if c = CHR ''e'' \<or> c = CHR ''E'' then
            (case t of
               [] \<Rightarrow> 1
             | sg # u \<Rightarrow>
                 if sg = CHR ''-'' \<and> takeWhile is_digit u \<noteq> []
                   then 1 / 10 ^ digits_nat (takeWhile is_digit u)
                 else if sg = CHR ''+'' \<and> takeWhile is_digit u \<noteq> []
                   then 10 ^ digits_nat (takeWhile is_digit u)
                 else if takeWhile is_digit t \<noteq> []
                   then 10 ^ digits_nat (takeWhile is_digit t)
                 else 1)
          else 1)"

definition parse_unsigned :: "string \<Rightarrow> jsnum" where
  "parse_unsigned s =
     (if startsWith s ''Infinity'' then PosInf
      else
        let ip = takeWhile is_digit s;
            r1 = dropWhile is_digit s;
            fp = (case r1 of [] \<Rightarrow> [] | c # t \<Rightarrow> if c = CHR ''.'' then takeWhile is_digit t else []);
            r2 = (case r1 of [] \<Rightarrow> [] | c # t \<Rightarrow> if c = CHR ''.'' then dropWhile is_digit t else r1)
        in if ip = [] \<and> fp = [] then NaN
           else Num ((of_nat (digits_nat ip) + of_nat (digits_nat fp) / 10 ^ length fp)
                     * exponent_factor r2))"

definition parseFloat :: "string \<Rightarrow> jsnum" where
  "parseFloat s =
     (case dropWhile is_space s of
        [] \<Rightarrow> NaN
      | c # t \<Rightarrow>
          if c = CHR ''-'' then js_neg (parse_unsigned t)
          else if c = CHR ''+'' then parse_unsigned t
          else parse_unsigned (c # t))"

section \<open>The versioned store\<close>

text \<open>
  The store is GitHub, reached through Octokit; neither is code of this repository, so the
  three calls the ledger makes are modelled from their documented behaviour.

  A repository has a default branch, a commit history per branch (the commit messages, newest
  first) and files per branch. The store holds the owner's repositories by name. Every call
  is one request: it fails with \<open>StoreUnavailable\<close> when the store cannot be reached at that
  moment, and time moves on by one request either way. \<open>reachable_at\<close> says at which requests
  the store answers, so that an outage may cover a whole operation or only part of it.
\<close>

datatype store_error = StoreUnavailable | NotFound | Conflict

record repository =
  default_branch :: string
  history :: "string \<rightharpoonup> string list"
  files :: "string \<Rightarrow> string \<rightharpoonup> string"

record store =
  repos :: "string \<rightharpoonup> repository"
  clock :: nat
  reachable_at :: "nat \<Rightarrow> bool"

definition tick :: "store \<Rightarrow> store" where
  "tick s = s\<lparr>clock := Suc (clock s)\<rparr>"

text \<open>
  \<open>repos.listCommits({owner, repo, per_page})\<close>: the code passes neither \<open>sha\<close> nor a branch, so
  the store lists the history of the default branch, newest first, one page of at most
  \<open>per_page\<close> commits.
\<close>

definition listCommits :: "string \<Rightarrow> nat \<Rightarrow> store \<Rightarrow> (store_error + string list) \<times> store" where
  "listCommits repoName per_page s =
     (if \<not> reachable_at s (clock s) then (Inl StoreUnavailable, tick s)
      else case repos s repoName of
             None \<Rightarrow> (Inl NotFound, tick s)
           | Some r \<Rightarrow>
               (case history r (default_branch r) of
                  None \<Rightarrow> (Inl NotFound, tick s)
                | Some commits \<Rightarrow> (Inr (take per_page commits), tick s)))"

text \<open>
  \<open>repos.getContent({owner, repo, path, ref})\<close>: the file at \<open>path\<close> on branch \<open>ref\<close>. The answer
  carries the content (base64, which the caller decodes) and the blob sha, which identifies
  the content; the model takes the content itself for both.
\<close>

definition getContent :: "string \<Rightarrow> string \<Rightarrow> string \<Rightarrow> store \<Rightarrow> (store_error + string) \<times> store" where
  "getContent repoName path ref s =
     (if \<not> reachable_at s (clock s) then (Inl StoreUnavailable, tick s)
      else case repos s repoName of
             None \<Rightarrow> (Inl NotFound, tick s)
           | Some r \<Rightarrow>
               (case history r ref of
                  None \<Rightarrow> (Inl NotFound, tick s)
                | Some commits \<Rightarrow>
                    (case files r ref path of
                       None \<Rightarrow> (Inl NotFound, tick s)
                     | Some text \<Rightarrow> (Inr text, tick s))))"

text \<open>
  \<open>repos.createOrUpdateFileContents({owner, repo, path, message, content, branch, sha})\<close>:
  one new commit on \<open>branch\<close> that replaces the file. The store accepts it only when \<open>sha\<close>
  names the blob that is the file at that moment, and answers with a conflict otherwise.
\<close>

definition createOrUpdateFileContents ::
  "string \<Rightarrow> string \<Rightarrow> string \<Rightarrow> string \<Rightarrow> string \<Rightarrow> string \<Rightarrow> store \<Rightarrow> (store_error + unit) \<times> store" where
  "createOrUpdateFileContents repoName path msg content branch sha s =
     (if \<not> reachable_at s (clock s) then (Inl StoreUnavailable, tick s)
      else case repos s repoName of
             None \<Rightarrow> (Inl NotFound, tick s)
           | Some r \<Rightarrow>
               (case history r branch of
                  None \<Rightarrow> (Inl NotFound, tick s)
                | Some commits \<Rightarrow>
                    if files r branch path \<noteq> Some sha then (Inl Conflict, tick s)
                    else (Inr (),
                          tick (s\<lparr>repos := (repos s)(repoName \<mapsto>
                            r\<lparr>history := (history r)(branch \<mapsto> msg # commits),
                              files := (files r)(branch := (files r branch)(path \<mapsto> content))\<rparr>)\<rparr>))))"

section \<open>The decision ledger (\<open>GitHubFuturesClient\<close>)\<close>

record decision =
  name :: string
  type :: string
  alternatives :: "string list"
  chosen :: string
  reason :: string
  confidence :: jsnum
  revisitProbability :: jsnum

text \<open>
  What the runtime supplies to the template string of the commit message: the conversion of
  a number to text, and the clock reading of \<open>new Date().toISOString()\<close>.
\<close>

record runtime =
  numToString :: "jsnum \<Rightarrow> string"
  isoNow :: string

definition commitMessage :: "runtime \<Rightarrow> decision \<Rightarrow> string" where
  "commitMessage rt d =
     ''decision: '' @ name d @ ''\<newline>'' @
     ''\<newline>'' @
     ''Decision Type: '' @ type d @ ''\<newline>'' @
     ''Alternatives Considered: '' @ join '', '' (alternatives d) @ ''\<newline>'' @
     ''Chosen: '' @ chosen d @ ''\<newline>'' @
     ''Reason: '' @ decision.reason d @ ''\<newline>'' @
     ''Confidence: '' @ numToString rt (confidence d) @ ''\<newline>'' @
     ''Revisit Probability: '' @ numToString rt (revisitProbability d) @ ''\<newline>'' @
     ''Timestamp: '' @ isoNow rt @ ''\<newline>''"

text \<open>
  \<open>parseDecisionFromCommit\<close> starts from the empty object and goes through the lines of the
  message; a line that starts with one of four labels sets that field, a later line
  overwriting an earlier one. \<open>line.split(':')[1]\<close> is the text between the first colon and
  the second one (or the end of the line); the line starts with a label that ends in a colon,
  so this piece always exists.
\<close>

record parsed_decision =
  parsed_type :: "string option"
  parsed_chosen :: "string option"
  parsed_confidence :: "jsnum option"
  parsed_revisitProbability :: "jsnum option"

definition empty_parsed :: parsed_decision where
  "empty_parsed = \<lparr> parsed_type = None, parsed_chosen = None, parsed_confidence = None,
                    parsed_revisitProbability = None \<rparr>"

definition second_piece :: "string \<Rightarrow> string" where
  "second_piece line = (case split_on CHR '':'' line of a # b # rest \<Rightarrow> b | _ \<Rightarrow> [])"

definition parse_line :: "parsed_decision \<Rightarrow> string \<Rightarrow> parsed_decision" where
  "parse_line acc line =
     (if startsWith line ''Decision Type:''
        then acc\<lparr>parsed_type := Some (trim (second_piece line))\<rparr>
      else if startsWith line ''Chosen:''
        then acc\<lparr>parsed_chosen := Some (trim (second_piece line))\<rparr>
      else if startsWith line ''Confidence:''
        then acc\<lparr>parsed_confidence := Some (parseFloat (second_piece line))\<rparr>
      else if startsWith line ''Revisit Probability:''
        then acc\<lparr>parsed_revisitProbability := Some (parseFloat (second_piece line))\<rparr>
      else acc)"

definition parseDecisionFromCommit :: "string \<Rightarrow> parsed_decision" where
  "parseDecisionFromCommit message = foldl parse_line empty_parsed (split_on CHR 0x0A message)"

text \<open>
  \<open>findDecision\<close>: the first listed commit whose message contains \<open>decision: <name>\<close>, parsed;
  \<open>null\<close> when there is none, and also when listing the commits fails (the \<open>catch\<close>).
\<close>

definition findDecision :: "string \<Rightarrow> string \<Rightarrow> store \<Rightarrow> parsed_decision option \<times> store" where
  "findDecision repoName decisionName s =
     (case listCommits repoName 100 s of
        (Inl err, s1) \<Rightarrow> (None, s1)
      | (Inr commits, s1) \<Rightarrow>
          (case find (\<lambda>m. includes_str m (''decision: '' @ decisionName)) commits of
             Some m \<Rightarrow> (Some (parseDecisionFromCommit m), s1)
           | None \<Rightarrow> (None, s1)))"

text \<open>
  \<open>makeDecision\<close> returns either the decision it found or the proposed one it has written.
  The second half of the function, from building the commit message to the write, is
  \<open>appendDecision\<close>; an error of the store there rejects the promise.
\<close>

datatype outcome = Existing parsed_decision | Recorded decision

definition appendDecision ::
  "runtime \<Rightarrow> string \<Rightarrow> string \<Rightarrow> decision \<Rightarrow> store \<Rightarrow> (store_error + outcome) \<times> store" where
  "appendDecision rt repoName branch d s =
     (case getContent repoName ''DECISIONS.log'' branch s of
        (Inl err, s1) \<Rightarrow> (Inl err, s1)
      | (Inr currentContent, s1) \<Rightarrow>
          (case createOrUpdateFileContents repoName ''DECISIONS.log'' (commitMessage rt d)
                  (currentContent @ ''\<newline>'' @ commitMessage rt d @ ''\<newline>---\<newline>'')
                  branch currentContent s1 of
             (Inl err, s2) \<Rightarrow> (Inl err, s2)
           | (Inr u, s2) \<Rightarrow> (Inr (Recorded d), s2)))"

definition makeDecision ::
  "runtime \<Rightarrow> string \<Rightarrow> string \<Rightarrow> decision \<Rightarrow> store \<Rightarrow> (store_error + outcome) \<times> store" where
  "makeDecision rt repoName branch d s =
     (case findDecision repoName (name d) s of
        (Some existing, s1) \<Rightarrow>
          if js_lt (revisitProbability d) (Num (7 / 10)) then (Inr (Existing existing), s1)
          else appendDecision rt repoName branch d s1
      | (None, s1) \<Rightarrow> appendDecision rt repoName branch d s1)"

subsection \<open>Two calls in flight\<close>

text \<open>
  \<open>makeDecision\<close> is asynchronous: it gives up control at each of its three requests to the
  store, and another call may run in between. \<open>step\<close> is one call advancing by one request;
  \<open>run_two\<close> advances two calls on the same repository in a given order.
\<close>

datatype call_state = AtLookup | AtRead | AtWrite string | Returned "store_error + outcome"

definition step ::
  "runtime \<Rightarrow> string \<Rightarrow> string \<Rightarrow> decision \<Rightarrow> call_state \<Rightarrow> store \<Rightarrow> call_state \<times> store" where
  "step rt repoName branch d c s =
     (case c of
        AtLookup \<Rightarrow>
          (case findDecision repoName (name d) s of
             (Some existing, s1) \<Rightarrow>
               if js_lt (revisitProbability d) (Num (7 / 10))
               then (Returned (Inr (Existing existing)), s1)
               else (AtRead, s1)
           | (None, s1) \<Rightarrow> (AtRead, s1))
      | AtRead \<Rightarrow>
          (case getContent repoName ''DECISIONS.log'' branch s of
             (Inl err, s1) \<Rightarrow> (Returned (Inl err), s1)
           | (Inr currentContent, s1) \<Rightarrow> (AtWrite currentContent, s1))
      | AtWrite currentContent \<Rightarrow>
          (case createOrUpdateFileContents repoName ''DECISIONS.log'' (commitMessage rt d)
                  (currentContent @ ''\<newline>'' @ commitMessage rt d @ ''\<newline>---\<newline>'')
                  branch currentContent s of
             (Inl err, s1) \<Rightarrow> (Returned (Inl err), s1)
           | (Inr u, s1) \<Rightarrow> (Returned (Inr (Recorded d)), s1))
      | Returned r \<Rightarrow> (Returned r, s))"

datatype caller = First | Second

fun run_two ::
  "runtime \<Rightarrow> string \<Rightarrow> string \<times> decision \<Rightarrow> string \<times> decision \<Rightarrow> caller list
   \<Rightarrow> call_state \<times> call_state \<times> store \<Rightarrow> call_state \<times> call_state \<times> store" where
  "run_two rt repoName a b [] st = st"
| "run_two rt repoName a b (First # sched) (ca, cb, s) =
     (case step rt repoName (fst a) (snd a) ca s of
        (ca', s') \<Rightarrow> run_two rt repoName a b sched (ca', cb, s'))"
| "run_two rt repoName a b (Second # sched) (ca, cb, s) =
     (case step rt repoName (fst b) (snd b) cb s of
        (cb', s') \<Rightarrow> run_two rt repoName a b sched (ca, cb', s'))"

section \<open>Requirements completeness (workflows, \<open>checkRequirementsComplete\<close>)\<close>

text \<open>
  \<open>parseAssumptions\<close> reads one assumption from every line that starts with \<open>##\<close>. Its
  criticality is the number after the first \<open>criticality: \<close> that is followed by a character
  of \<open>[0-9.]\<close> (the regular expression \<open>/criticality: ([0-9.]+)/\<close>, whose group is the longest
  run of such characters), or 0.5 when the line has no such place; it is validated when the
  line contains \<open>[validated]\<close> or \<open>[x]\<close>.
\<close>

record assumption =
  criticality :: jsnum
  validated :: bool

definition is_numchar :: "char \<Rightarrow> bool" where
  "is_numchar c \<longleftrightarrow> is_digit c \<or> c = CHR ''.''"

fun match_criticality :: "string \<Rightarrow> string option" where
  "match_criticality [] = None"
| "match_criticality (c # cs) =
     (if startsWith (c # cs) ''criticality: ''
         \<and> takeWhile is_numchar (drop 13 (c # cs)) \<noteq> []
      then Some (takeWhile is_numchar (drop 13 (c # cs)))
      else match_criticality cs)"

definition parse_assumption_line :: "string \<Rightarrow> assumption" where
  "parse_assumption_line line =
     \<lparr> criticality = (case match_criticality line of
                        Some g \<Rightarrow> parseFloat g
                      | None \<Rightarrow> Num (1 / 2)),
       validated = (includes_str line ''[validated]'' \<or> includes_str line ''[x]'') \<rparr>"

definition parseAssumptions :: "string \<Rightarrow> assumption list" where
  "parseAssumptions content =
     map parse_assumption_line
       (filter (\<lambda>line. startsWith line ''##'') (split_on CHR 0x0A content))"

text \<open>
  The artifact set is the object \<open>content\<close>, from file name to text. A missing file is
  \<open>undefined\<close>: \<open>undefined?.length > n\<close> is false, and \<open>undefined || ''\<close> is the empty string.
\<close>

type_synonym artifacts = "string \<rightharpoonup> string"

record requirements_details =
  hasRequirements :: bool
  hasAssumptions :: bool
  hasGoals :: bool
  criticalValidationRate :: jsnum

record verdict =
  complete :: bool
  reason :: string

record requirements_verdict = verdict +
  details :: requirements_details

definition length_gt :: "string option \<Rightarrow> nat \<Rightarrow> bool" where
  "length_gt f n = (case f of None \<Rightarrow> False | Some t \<Rightarrow> length t > n)"

definition text_or_empty :: "string option \<Rightarrow> string" where
  "text_or_empty f = (case f of None \<Rightarrow> [] | Some t \<Rightarrow> t)"

definition critical_assumptions :: "assumption list \<Rightarrow> assumption list" where
  "critical_assumptions as = filter (\<lambda>a. js_gt (criticality a) (Num (7 / 10))) as"

definition checkRequirementsComplete :: "artifacts \<Rightarrow> requirements_verdict" where
  "checkRequirementsComplete content =
     (let hasReq = length_gt (content ''REQUIREMENTS.md'') 100;
          hasAss = length_gt (content ''ASSUMPTIONS.md'') 0;
          hasGo = length_gt (content ''GOALS.md'') 0;
          assumptions = parseAssumptions (text_or_empty (content ''ASSUMPTIONS.md''));
          critical = critical_assumptions assumptions;
          validated_ones = filter validated critical;
          validationRate = js_div_len (length validated_ones) (length critical);
          compl = (hasReq \<and> hasAss \<and> hasGo \<and> js_ge validationRate (Num (8 / 10)))
      in \<lparr> complete = compl,
           reason = (if compl then ''Requirements stage complete'' else ''Requirements incomplete''),
           details = \<lparr> hasRequirements = hasReq, hasAssumptions = hasAss, hasGoals = hasGo,
                       criticalValidationRate = validationRate \<rparr> \<rparr>)"

section \<open>Analysis completeness (workflow \<open>analysis-phase\<close>, step \<open>validate-completeness\<close>)\<close>

text \<open>
  The step reads four files with the agent's \<open>Read file\<close> tool, which answers
  \<open>{success: true, content}\<close> or \<open>{success: false, error}\<close>: here \<open>Some content\<close> or \<open>None\<close>.

  The three counts are numbers of regular-expression matches. In \<open>/##.*Unknown/g\<close> and
  \<open>/###.*Competitor/gi\<close> the dot does not cross a line terminator and the star is greedy, so a
  line holds at most one match, and holds one when the heading marker occurs in it with the
  word somewhere after it. The flag \<open>i\<close> compares letters without regard to case: both
  sides go through \<open>lower_char\<close> (the marker has no letters); without the flag they are
  compared as they are.
  \<open>/###/g\<close> counts the occurrences of three hash signs from left to right, without overlap.
  The line terminators are line feed and carriage return.
\<close>

type_synonym read_result = "string option"

definition is_line_terminator :: "char \<Rightarrow> bool" where
  "is_line_terminator c \<longleftrightarrow> c = CHR 0x0A \<or> c = CHR 0x0D"

definition lower_char :: "char \<Rightarrow> char" where
  "lower_char c =
     (case map_of (zip ''ABCDEFGHIJKLMNOPQRSTUVWXYZ'' ''abcdefghijklmnopqrstuvwxyz'') c of
        None \<Rightarrow> c
      | Some l \<Rightarrow> l)"

fun marker_then_word :: "(char \<Rightarrow> char) \<Rightarrow> string \<Rightarrow> string \<Rightarrow> string \<Rightarrow> bool" where
  "marker_then_word canon marker word [] = False"
| "marker_then_word canon marker word (c # cs) =
     (if startsWith (c # cs) marker
      then (if includes_str (map canon (drop (length marker) (c # cs))) (map canon word)
            then True
            else marker_then_word canon marker word cs)
      else marker_then_word canon marker word cs)"

definition count_line_matches :: "(char \<Rightarrow> char) \<Rightarrow> string \<Rightarrow> string \<Rightarrow> string \<Rightarrow> nat" where
  "count_line_matches canon marker word s =
     length (filter (marker_then_word canon marker word) (split_where is_line_terminator s))"

fun count_triple_hash :: "string \<Rightarrow> nat" where
  "count_triple_hash (a # b # c # rest) =
     (if a = CHR ''#'' \<and> b = CHR ''#'' \<and> c = CHR ''#'' then Suc (count_triple_hash rest)
      else count_triple_hash (b # c # rest))"
| "count_triple_hash rest = 0"

record analysis_verdict = verdict +
  hasAnalysis :: bool
  hasMVP :: bool
  hasCompetitive :: bool
  hasRisks :: bool
  unknownsCount :: nat
  risksCount :: nat
  competitorsCount :: nat

definition content_includes :: "read_result \<Rightarrow> string \<Rightarrow> bool" where
  "content_includes f w = (case f of None \<Rightarrow> False | Some t \<Rightarrow> includes_str t w)"

definition validateCompleteness ::
  "read_result \<Rightarrow> read_result \<Rightarrow> read_result \<Rightarrow> read_result \<Rightarrow> analysis_verdict" where
  "validateCompleteness analysis mvp competitive risks =
     (let hasA = content_includes analysis ''Biggest Unknowns'';
          hasM = content_includes mvp ''Core Hypothesis'';
          hasC = length_gt competitive 300;
          hasR = content_includes risks ''Risk'';
          unknowns = (case analysis of None \<Rightarrow> 0
                      | Some t \<Rightarrow> count_line_matches (\<lambda>c. c) ''##'' ''Unknown'' t);
          risksN = (case risks of None \<Rightarrow> 0 | Some t \<Rightarrow> count_triple_hash t);
          competitors = (case competitive of None \<Rightarrow> 0
                         | Some t \<Rightarrow> count_line_matches lower_char ''###'' ''Competitor'' t);
          compl = (hasA \<and> hasM \<and> hasC \<and> hasR
                   \<and> unknowns \<ge> 5 \<and> risksN \<ge> 5 \<and> competitors \<ge> 3)
      in \<lparr> complete = compl,
           reason = (if compl then ''Analysis phase complete''
                     else ''Incomplete analysis - need more depth''),
           hasAnalysis = hasA, hasMVP = hasM, hasCompetitive = hasC, hasRisks = hasR,
           unknownsCount = unknowns, risksCount = risksN, competitorsCount = competitors \<rparr>)"

section \<open>Example inputs\<close>

text \<open>Two artifact sets used below: the scenario with four assumptions, and one whose
  assumptions are all at or below the critical threshold.\<close>

definition scenario_artifacts :: artifacts where
  "scenario_artifacts =
     [''REQUIREMENTS.md'' \<mapsto> replicate 101 CHR ''r'',
      ''ASSUMPTIONS.md'' \<mapsto>
        ''# Assumptions\<newline>## Users pay monthly (criticality: 0.8) [validated]\<newline>## Data is available (criticality: 0.75) [x]\<newline>## Mobile first (criticality: 0.5)\<newline>## Dark mode (criticality: 0.3)'',
      ''GOALS.md'' \<mapsto> ''# Goals'']"

definition no_critical_artifacts :: artifacts where
  "no_critical_artifacts =
     [''REQUIREMENTS.md'' \<mapsto> replicate 101 CHR ''r'',
      ''ASSUMPTIONS.md'' \<mapsto>
        ''## Mobile first (criticality: 0.5) [validated]\<newline>## Dark mode (criticality: 0.3)'',
      ''GOALS.md'' \<mapsto> ''# Goals'']"

text \<open>The assumptions document that \<open>generateAssumptionsTemplate\<close> writes into a new idea.\<close>

definition assumptions_template :: string where
  "assumptions_template = ''# Assumptions\<newline>\<newline>## Critical Assumptions (>0.7 criticality)\<newline>\<newline>Must be validated before advancing past requirements.\<newline>\<newline>## Standard Assumptions\<newline>\<newline>Should be validated but not blocking.\<newline>\<newline>## Validation Status\<newline>\<newline>Track validation progress here.\<newline>''"

text \<open>The commits of one branch of one repository, for reading a store after a call.\<close>

definition commits_on :: "store \<Rightarrow> string \<Rightarrow> string \<Rightarrow> string list" where
  "commits_on s repoName branch =
     (case repos s repoName of
        None \<Rightarrow> []
      | Some r \<Rightarrow> (case history r branch of None \<Rightarrow> [] | Some commits \<Rightarrow> commits))"

text \<open>
  A runtime for the examples: the number conversion on the numbers that occur in them
  (\<open>String(0.05)\<close> is \<open>0.05\<close>, and so on; no other number is converted), and a fixed clock
  reading.
\<close>

definition example_numToString :: "jsnum \<Rightarrow> string" where
  "example_numToString x =
     (if x = Num (1 / 20) then ''0.05''
      else if x = Num (17 / 20) then ''0.85''
      else if x = Num (3 / 5) then ''0.6''
      else if x = Num (9 / 10) then ''0.9''
      else ''NaN'')"

definition example_runtime :: runtime where
  "example_runtime =
     \<lparr> numToString = example_numToString, isoNow = ''2025-01-01T00:00:00.000Z'' \<rparr>"

definition postgres_decision :: decision where
  "postgres_decision =
     \<lparr> name = ''use-database'', type = ''technology-choice'',
       alternatives = [''PostgreSQL'', ''MongoDB''], chosen = ''PostgreSQL'',
       reason = ''Relational data'', confidence = Num (17 / 20),
       revisitProbability = Num (1 / 20) \<rparr>"

definition mongo_decision :: decision where
  "mongo_decision =
     \<lparr> name = ''use-database'', type = ''technology-choice'',
       alternatives = [''PostgreSQL'', ''MongoDB''], chosen = ''MongoDB'',
       reason = ''Flexible schema'', confidence = Num (3 / 5),
       revisitProbability = Num (9 / 10) \<rparr>"

text \<open>
  A repository as \<open>createIdea\<close> leaves it, cut down to two stage branches: the default branch
  is \<open>main\<close>, and \<open>DECISIONS.log\<close> exists on \<open>requirements\<close> only.
\<close>

definition idea_repository :: repository where
  "idea_repository =
     \<lparr> default_branch = ''main'',
       history = [''main'' \<mapsto> [''Initial commit''],
                  ''requirements'' \<mapsto> [''init: create DECISIONS.log'', ''Initial commit''],
                  ''analysis'' \<mapsto> [''Initial commit'']],
       files = (\<lambda>b. if b = ''requirements''
                     then [''DECISIONS.log'' \<mapsto> ''# Decision History\<newline>\<newline>'']
                     else Map.empty) \<rparr>"

definition idea_store :: store where
  "idea_store = \<lparr> repos = [''idea-shop'' \<mapsto> idea_repository], clock = 0,
                   reachable_at = (\<lambda>t. True) \<rparr>"

text \<open>
  A repository whose decision log lives on its default branch, the one branch whose commits
  \<open>findDecision\<close> is shown; \<open>settled_store\<close> is that store after the first decision.
\<close>

definition main_repository :: repository where
  "main_repository =
     \<lparr> default_branch = ''main'',
       history = [''main'' \<mapsto> [''init: create DECISIONS.log'', ''Initial commit'']],
       files = (\<lambda>b. if b = ''main''
                     then [''DECISIONS.log'' \<mapsto> ''# Decision History\<newline>\<newline>'']
                     else Map.empty) \<rparr>"

definition main_store :: store where
  "main_store = \<lparr> repos = [''idea-shop'' \<mapsto> main_repository], clock = 0,
                   reachable_at = (\<lambda>t. True) \<rparr>"

definition settled_store :: store where
  "settled_store =
     snd (makeDecision example_runtime ''idea-shop'' ''main'' postgres_decision main_store)"

text \<open>Two decisions of which one name extends the other, the longer one committed last.\<close>

definition pool_decision :: decision where
  "pool_decision =
     \<lparr> name = ''use-db-pool'', type = ''architecture'',
       alternatives = [''pgbouncer'', ''none''], chosen = ''pgbouncer'',
       reason = ''Many short connections'', confidence = Num (17 / 20),
       revisitProbability = Num (1 / 20) \<rparr>"

definition db_decision :: decision where
  "db_decision =
     \<lparr> name = ''use-db'', type = ''technology-choice'',
       alternatives = [''PostgreSQL'', ''MongoDB''], chosen = ''PostgreSQL'',
       reason = ''Relational data'', confidence = Num (17 / 20),
       revisitProbability = Num (1 / 20) \<rparr>"

definition pool_repository :: repository where
  "pool_repository =
     \<lparr> default_branch = ''main'',
       history = [''main'' \<mapsto> [commitMessage example_runtime pool_decision,
                              commitMessage example_runtime db_decision,
                              ''init: create DECISIONS.log'', ''Initial commit'']],
       files = (\<lambda>b. Map.empty) \<rparr>"

definition pool_store :: store where
  "pool_store = \<lparr> repos = [''idea-shop'' \<mapsto> pool_repository], clock = 0,
                   reachable_at = (\<lambda>t. True) \<rparr>"


text \<open>
  The same repository after a first decision with a high revisit probability; the settled
  store during an outage that covers one request, and during one that does not end; and a
  second proposal for the settled name that itself has a low revisit probability.
\<close>

definition risky_decision :: decision where
  "risky_decision =
     \<lparr> name = ''use-database'', type = ''technology-choice'',
       alternatives = [''PostgreSQL'', ''MongoDB''], chosen = ''PostgreSQL'',
       reason = ''Relational data'', confidence = Num (3 / 5),
       revisitProbability = Num (9 / 10) \<rparr>"

definition risky_store :: store where
  "risky_store =
     snd (makeDecision example_runtime ''idea-shop'' ''main'' risky_decision main_store)"

definition outage_store :: store where
  "outage_store = settled_store\<lparr>reachable_at := (\<lambda>t. t \<noteq> 3)\<rparr>"

definition blackout_store :: store where
  "blackout_store = settled_store\<lparr>reachable_at := (\<lambda>t. False)\<rparr>"

definition mongo_cautious :: decision where
  "mongo_cautious =
     \<lparr> name = ''use-database'', type = ''technology-choice'',
       alternatives = [''PostgreSQL'', ''MongoDB''], chosen = ''MongoDB'',
       reason = ''Flexible schema'', confidence = Num (3 / 5),
       revisitProbability = Num (1 / 20) \<rparr>"

text \<open>
  Fields for which the commit message can be read back: text on one line; for the type and
  the chosen alternative also no colon and no white space at either end; and numbers that
  the runtime prints as a literal without colon or line break which \<open>parseFloat\<close> reads
  back as the number.
\<close>

definition single_line :: "string \<Rightarrow> bool" where
  "single_line t \<longleftrightarrow> CHR 0x0A \<notin> set t"

definition trimmed :: "string \<Rightarrow> bool" where
  "trimmed t \<longleftrightarrow> (t = [] \<or> (\<not> is_space (hd t) \<and> \<not> is_space (last t)))"

definition plain_value :: "string \<Rightarrow> bool" where
  "plain_value t \<longleftrightarrow> CHR '':'' \<notin> set t \<and> trimmed t"

definition reads_back :: "runtime \<Rightarrow> jsnum \<Rightarrow> bool" where
  "reads_back rt x \<longleftrightarrow>
     CHR '':'' \<notin> set (numToString rt x) \<and> CHR 0x0A \<notin> set (numToString rt x)
     \<and> parseFloat (CHR '' '' # numToString rt x) = x"

text \<open>A decision whose chosen alternative contains a colon.\<close>

definition redis_decision :: decision where
  "redis_decision =
     \<lparr> name = ''use-cache'', type = ''technology-choice'',
       alternatives = [''Redis: cluster mode'', ''Memcached''], chosen = ''Redis: cluster mode'',
       reason = ''Needs persistence'', confidence = Num (17 / 20),
       revisitProbability = Num (1 / 20) \<rparr>"

text \<open>
  The four analysis artifacts of the scenario: four headings with \<open>Unknown\<close>, six risks,
  two competitors; each artifact carries its keyword, and the competitive analysis is longer
  than 300 characters.
\<close>

definition scenario_analysis :: string where
  "scenario_analysis = ''# Analysis\<newline>\<newline>## Biggest Unknowns\<newline>\<newline>### Unknown: will founders pay\<newline>### Unknown: time to first version\<newline>### Unknown: cost per generated stage\<newline>\<newline>## Technical Feasibility\<newline>Buildable with hosted models.\<newline>''"

definition scenario_mvp :: string where
  "scenario_mvp = ''# MVP Definition\<newline>\<newline>## Core Hypothesis to Test\<newline>Founders finish the requirements stage in one sitting.\<newline>''"

definition scenario_competitive :: string where
  "scenario_competitive = ''# Competitive Analysis\<newline>\<newline>### Competitor: Acme Planner\<newline>Approach: spreadsheet templates sold to founders. Strengths: cheap, well known. Weaknesses: no guidance, no history of decisions.\<newline>\<newline>### Competitor: Globex Studio\<newline>Approach: agency that builds the first version. Strengths: full service. Weaknesses: slow and expensive for a first test.\<newline>''"

definition scenario_risks :: string where
  "scenario_risks = ''# Risk Assessment\<newline>\<newline>### Market\<newline>### Technical\<newline>### Team\<newline>### Financial\<newline>### Execution\<newline>### Regulatory\<newline>''"

section \<open>Properties of the requirements evaluator\<close>

lemmas parse_number_defs =
  parseFloat_def parse_unsigned_def exponent_factor_def js_neg_def
  is_space_def is_digit_def digits_nat_def digit_val_def

lemmas parse_assumption_defs =
  parseAssumptions_def parse_assumption_line_def is_numchar_def split_on_def

lemma parseAssumptions_empty: "parseAssumptions [] = []"
  by (simp add: parseAssumptions_def split_on_def)

text \<open>
  With no critical assumption the rate is \<open>0 / 0\<close>, and the comparison \<open>NaN >= 0.8\<close> is
  false: such an artifact set is never complete, whatever else it holds.
\<close>

lemma no_critical_never_complete:
  assumes "critical_assumptions
             (parseAssumptions (text_or_empty (content ''ASSUMPTIONS.md''))) = []"
  shows "\<not> complete (checkRequirementsComplete content)"
  using assms by (simp add: checkRequirementsComplete_def Let_def js_div_len_def js_ge_def)

text \<open>
  The template of a new idea is such a document: its three headings carry no criticality,
  so each counts as 0.5 and none is critical.
\<close>

lemma template_has_no_critical_assumption:
  "parseAssumptions assumptions_template =
     [\<lparr>criticality = Num (1 / 2), validated = False\<rparr>,
      \<lparr>criticality = Num (1 / 2), validated = False\<rparr>,
      \<lparr>criticality = Num (1 / 2), validated = False\<rparr>]"
  "critical_assumptions (parseAssumptions assumptions_template) = []"
  by (simp_all add: assumptions_template_def parse_assumption_defs critical_assumptions_def
        js_gt_def)

text \<open>
  C3. The claim is that an artifact set with the three artifacts present (requirements above
  the minimum length) and no assumption of criticality above 0.7 is complete. The code
  decides otherwise: on \<open>no_critical_artifacts\<close> the three artifacts pass their checks, no
  parsed assumption is critical, the validation rate is \<open>NaN\<close>, and the verdict is incomplete.
\<close>

theorem requirements_no_critical_assumptions:
  "critical_assumptions (parseAssumptions
      (text_or_empty (no_critical_artifacts ''ASSUMPTIONS.md''))) = []
   \<and> hasRequirements (details (checkRequirementsComplete no_critical_artifacts))
   \<and> hasAssumptions (details (checkRequirementsComplete no_critical_artifacts))
   \<and> hasGoals (details (checkRequirementsComplete no_critical_artifacts))
   \<and> criticalValidationRate (details (checkRequirementsComplete no_critical_artifacts)) = NaN
   \<and> \<not> complete (checkRequirementsComplete no_critical_artifacts)"
proof -
  have p: "parseAssumptions (text_or_empty (no_critical_artifacts ''ASSUMPTIONS.md'')) =
        [\<lparr>criticality = Num (1 / 2), validated = True\<rparr>,
         \<lparr>criticality = Num (3 / 10), validated = False\<rparr>]"
    by (simp add: no_critical_artifacts_def text_or_empty_def parse_assumption_defs
          parse_number_defs)
  have c: "critical_assumptions (parseAssumptions
      (text_or_empty (no_critical_artifacts ''ASSUMPTIONS.md''))) = []"
    by (simp add: p critical_assumptions_def js_gt_def)
  show ?thesis
    by (simp add: checkRequirementsComplete_def Let_def c js_div_len_def js_ge_def)
       (simp add: no_critical_artifacts_def length_gt_def)
qed

text \<open>
  C8. When the requirements artifact is longer than 100 characters, the goals artifact is not
  empty, and the assumptions artifact parses into four assumptions of criticality 0.8, 0.75,
  0.5 and 0.3 of which the first two are validated, the critical validation rate is
  \<open>2 / 2 = 1\<close> and the verdict is complete.
\<close>

theorem requirements_scenario_complete:
  assumes req: "content ''REQUIREMENTS.md'' = Some r" "length r > 100"
    and ass: "content ''ASSUMPTIONS.md'' = Some a"
    and goals: "content ''GOALS.md'' = Some g" "length g > 0"
    and parsed: "parseAssumptions a =
        [\<lparr>criticality = Num (8 / 10), validated = True\<rparr>,
         \<lparr>criticality = Num (75 / 100), validated = True\<rparr>,
         \<lparr>criticality = Num (5 / 10), validated = v3\<rparr>,
         \<lparr>criticality = Num (3 / 10), validated = v4\<rparr>]"
  shows "criticalValidationRate (details (checkRequirementsComplete content)) = Num 1
         \<and> complete (checkRequirementsComplete content)"
proof -
  have nonempty: "length a > 0"
    using parsed parseAssumptions_empty by (cases a) auto
  have crit: "critical_assumptions (parseAssumptions a) =
        [\<lparr>criticality = Num (8 / 10), validated = True\<rparr>,
         \<lparr>criticality = Num (75 / 100), validated = True\<rparr>]"
    by (simp add: parsed critical_assumptions_def js_gt_def)
  have rate: "js_div_len (length (filter validated (critical_assumptions (parseAssumptions a))))
                (length (critical_assumptions (parseAssumptions a))) = Num 1"
    by (simp add: crit js_div_len_def)
  show ?thesis
    using req ass goals nonempty rate
    by (simp add: checkRequirementsComplete_def Let_def length_gt_def text_or_empty_def
          js_ge_def)
qed

theorem requirements_scenario_complete_witness:
  "criticalValidationRate (details (checkRequirementsComplete scenario_artifacts)) = Num 1
   \<and> complete (checkRequirementsComplete scenario_artifacts)"
proof -
  have r: "scenario_artifacts ''REQUIREMENTS.md'' = Some (replicate 101 CHR ''r'')"
    by (simp add: scenario_artifacts_def)
  have a: "scenario_artifacts ''ASSUMPTIONS.md'' = Some
        ''# Assumptions\<newline>## Users pay monthly (criticality: 0.8) [validated]\<newline>## Data is available (criticality: 0.75) [x]\<newline>## Mobile first (criticality: 0.5)\<newline>## Dark mode (criticality: 0.3)''"
    by (simp add: scenario_artifacts_def)
  have g: "scenario_artifacts ''GOALS.md'' = Some ''# Goals''"
    by (simp add: scenario_artifacts_def)
  have p: "parseAssumptions
        ''# Assumptions\<newline>## Users pay monthly (criticality: 0.8) [validated]\<newline>## Data is available (criticality: 0.75) [x]\<newline>## Mobile first (criticality: 0.5)\<newline>## Dark mode (criticality: 0.3)'' =
        [\<lparr>criticality = Num (8 / 10), validated = True\<rparr>,
         \<lparr>criticality = Num (75 / 100), validated = True\<rparr>,
         \<lparr>criticality = Num (5 / 10), validated = False\<rparr>,
         \<lparr>criticality = Num (3 / 10), validated = False\<rparr>]"
    by (simp add: parse_assumption_defs parse_number_defs)
  show ?thesis
    by (rule requirements_scenario_complete [OF r _ a g _ p]) simp_all
qed

section \<open>Properties of the decision ledger\<close>

subsection \<open>Strings and lists\<close>

lemma startsWith_append: "startsWith (p @ s) p"
  by (induction p) simp_all

lemma includes_str_at: "includes_str (p @ s) p"
proof (cases "p @ s")
  case Nil
  then show ?thesis by simp
next
  case (Cons a l)
  have "startsWith (p @ s) p" by (rule startsWith_append)
  then show ?thesis by (simp add: Cons)
qed

lemma find_skip:
  assumes "\<forall>x \<in> set xs. \<not> P x" and "P y"
  shows "find P (xs @ y # ys) = Some y"
  using assms by (induction xs) simp_all

subsection \<open>The calls, one request at a time\<close>

lemmas store_call_defs =
  listCommits_def getContent_def createOrUpdateFileContents_def tick_def

lemma tick_fields [simp]:
  "clock (tick s) = Suc (clock s)" "repos (tick s) = repos s"
  "reachable_at (tick s) = reachable_at s"
  by (simp_all add: tick_def)

lemma findDecision_unreachable:
  "\<not> reachable_at s (clock s) \<Longrightarrow> findDecision repoName n s = (None, tick s)"
  by (simp add: findDecision_def listCommits_def)

lemma findDecision_listed:
  assumes "reachable_at s (clock s)" "repos s repoName = Some r"
    and "history r (default_branch r) = Some commits"
  shows "findDecision repoName n s =
     (map_option parseDecisionFromCommit
        (find (\<lambda>m. includes_str m (''decision: '' @ n)) (take 100 commits)), tick s)"
  using assms by (simp add: findDecision_def listCommits_def split: option.splits)

lemma findDecision_ticks: "snd (findDecision repoName n s) = tick s"
  by (simp add: findDecision_def listCommits_def split: option.splits)

lemma appendDecision_unreachable:
  "\<not> reachable_at s (clock s) \<Longrightarrow>
   appendDecision rt repoName branch d s = (Inl StoreUnavailable, tick s)"
  by (simp add: appendDecision_def getContent_def)

lemma appendDecision_appends:
  assumes "reachable_at s (clock s)" "reachable_at s (Suc (clock s))"
    and "repos s repoName = Some r" "history r branch = Some commits"
    and "files r branch ''DECISIONS.log'' = Some logtext"
  shows "fst (appendDecision rt repoName branch d s) = Inr (Recorded d)"
    and "commits_on (snd (appendDecision rt repoName branch d s)) repoName branch
           = commitMessage rt d # commits"
    and "clock (snd (appendDecision rt repoName branch d s)) = Suc (Suc (clock s))"
  using assms
  by (simp_all add: appendDecision_def store_call_defs commits_on_def)

lemma makeDecision_found:
  "findDecision repoName (name d) s = (Some e, s1) \<Longrightarrow>
   makeDecision rt repoName branch d s
     = (if js_lt (revisitProbability d) (Num (7 / 10)) then (Inr (Existing e), s1)
        else appendDecision rt repoName branch d s1)"
  by (simp add: makeDecision_def)

lemma js_ge_not_lt: "js_ge a b \<Longrightarrow> \<not> js_lt a b"
  by (simp add: js_ge_def)

subsection \<open>The examples, evaluated\<close>

lemmas ledger_defs =
  makeDecision_def appendDecision_def findDecision_def store_call_defs
  parseDecisionFromCommit_def parse_line_def second_piece_def empty_parsed_def
  split_on_def trim_def commits_on_def

lemmas example_defs =
  example_runtime_def example_numToString_def postgres_decision_def mongo_decision_def
  commitMessage_def

lemmas example_store_defs =
  idea_store_def idea_repository_def main_store_def main_repository_def settled_store_def

lemma postgres_message:
  "commitMessage example_runtime postgres_decision =
     ''decision: use-database\<newline>\<newline>Decision Type: technology-choice\<newline>Alternatives Considered: PostgreSQL, MongoDB\<newline>Chosen: PostgreSQL\<newline>Reason: Relational data\<newline>Confidence: 0.85\<newline>Revisit Probability: 0.05\<newline>Timestamp: 2025-01-01T00:00:00.000Z\<newline>''"
  by (simp add: example_defs)

lemma mongo_message:
  "commitMessage example_runtime mongo_decision =
     ''decision: use-database\<newline>\<newline>Decision Type: technology-choice\<newline>Alternatives Considered: PostgreSQL, MongoDB\<newline>Chosen: MongoDB\<newline>Reason: Flexible schema\<newline>Confidence: 0.6\<newline>Revisit Probability: 0.9\<newline>Timestamp: 2025-01-01T00:00:00.000Z\<newline>''"
  by (simp add: example_defs)

lemma pool_parsed:
  "parseDecisionFromCommit (commitMessage example_runtime pool_decision) =
     \<lparr> parsed_type = Some ''architecture'', parsed_chosen = Some ''pgbouncer'',
       parsed_confidence = Some (Num (17 / 20)),
       parsed_revisitProbability = Some (Num (1 / 20)) \<rparr>"
  by (simp add: pool_decision_def example_runtime_def example_numToString_def commitMessage_def
        parseDecisionFromCommit_def parse_line_def second_piece_def empty_parsed_def
        split_on_def trim_def parse_number_defs)

lemma risky_message:
  "commitMessage example_runtime risky_decision =
     ''decision: use-database\<newline>\<newline>Decision Type: technology-choice\<newline>Alternatives Considered: PostgreSQL, MongoDB\<newline>Chosen: PostgreSQL\<newline>Reason: Relational data\<newline>Confidence: 0.6\<newline>Revisit Probability: 0.9\<newline>Timestamp: 2025-01-01T00:00:00.000Z\<newline>''"
  by (simp add: example_defs risky_decision_def)

lemma cautious_message:
  "commitMessage example_runtime mongo_cautious =
     ''decision: use-database\<newline>\<newline>Decision Type: technology-choice\<newline>Alternatives Considered: PostgreSQL, MongoDB\<newline>Chosen: MongoDB\<newline>Reason: Flexible schema\<newline>Confidence: 0.6\<newline>Revisit Probability: 0.05\<newline>Timestamp: 2025-01-01T00:00:00.000Z\<newline>''"
  by (simp add: example_defs mongo_cautious_def)

lemma settled_store_fields:
  "clock settled_store = 3"
  "\<exists>r logtext. repos settled_store ''idea-shop'' = Some r
     \<and> history r ''main'' = Some [commitMessage example_runtime postgres_decision,
                                 ''init: create DECISIONS.log'', ''Initial commit'']
     \<and> files r ''main'' ''DECISIONS.log'' = Some logtext"
  by (simp_all add: ledger_defs example_store_defs postgres_message)

lemma risky_store_fields:
  "reachable_at risky_store = (\<lambda>t. True)"
  "\<exists>r logtext. repos risky_store ''idea-shop'' = Some r
     \<and> history r ''main'' = Some [commitMessage example_runtime risky_decision,
                                 ''init: create DECISIONS.log'', ''Initial commit'']
     \<and> files r ''main'' ''DECISIONS.log'' = Some logtext"
  by (simp_all add: ledger_defs example_store_defs risky_store_def risky_message)

lemma risky_found:
  "fst (findDecision ''idea-shop'' ''use-database'' risky_store)
     = Some \<lparr> parsed_type = Some ''technology-choice'', parsed_chosen = Some ''PostgreSQL'',
              parsed_confidence = Some (Num (3 / 5)),
              parsed_revisitProbability = Some (Num (9 / 10)) \<rparr>"
  by (simp add: ledger_defs example_store_defs risky_store_def risky_message
        parse_number_defs)

subsection \<open>Lookup\<close>

lemma commitMessage_names:
  assumes "name d = shortName @ extension"
  shows "includes_str (commitMessage rt d) (''decision: '' @ shortName)"
proof -
  obtain rest where "commitMessage rt d = (''decision: '' @ shortName) @ rest"
    unfolding commitMessage_def assms append_assoc by blast
  then show ?thesis by (simp only: includes_str_at)
qed

text \<open>
  C4. The claim is that \<open>findDecision\<close> scans the decision logs of all stage branches. The
  code lists the commits of the default branch only. On a repository as \<open>createIdea\<close> leaves
  it, \<open>makeDecision\<close> records \<open>use-database\<close> on branch \<open>requirements\<close> with one new commit
  there, and \<open>findDecision\<close> for \<open>use-database\<close> then answers that there is none.
\<close>

theorem findDecision_misses_stage_branch:
  "fst (makeDecision example_runtime ''idea-shop'' ''requirements'' postgres_decision idea_store)
     = Inr (Recorded postgres_decision)
   \<and> commits_on (snd (makeDecision example_runtime ''idea-shop'' ''requirements''
                        postgres_decision idea_store)) ''idea-shop'' ''requirements''
     = [commitMessage example_runtime postgres_decision, ''init: create DECISIONS.log'',
        ''Initial commit'']
   \<and> fst (findDecision ''idea-shop'' ''use-database''
            (snd (makeDecision example_runtime ''idea-shop'' ''requirements''
                    postgres_decision idea_store)))
     = None"
  by (simp add: ledger_defs example_store_defs postgres_message)

text \<open>
  C10. Lookup is by substring. Let the name of decision \<open>d\<close> extend \<open>shortName\<close> by at least
  one character, and let the commit of \<open>d\<close> be the first listed commit (within the page of
  100) whose message contains \<open>decision: shortName\<close>. Then \<open>findDecision\<close> called with
  \<open>shortName\<close> returns the record parsed from the commit of \<open>d\<close>.
\<close>

theorem findDecision_matches_longer_name:
  assumes reach: "reachable_at s (clock s)"
    and repo: "repos s repoName = Some r"
    and hist: "history r (default_branch r) = Some (earlier @ commitMessage rt d # later)"
    and page: "length earlier < 100"
    and first: "\<forall>m \<in> set earlier. \<not> includes_str m (''decision: '' @ shortName)"
    and longer: "name d = shortName @ extension" "extension \<noteq> []"
  shows "fst (findDecision repoName shortName s)
           = Some (parseDecisionFromCommit (commitMessage rt d))"
proof -
  have cut: "take 100 (earlier @ commitMessage rt d # later)
               = earlier @ commitMessage rt d # take (99 - length earlier) later"
    using page by (simp add: take_Cons')
  have hit: "find (\<lambda>m. includes_str m (''decision: '' @ shortName))
               (earlier @ commitMessage rt d # take (99 - length earlier) later)
             = Some (commitMessage rt d)"
  proof (rule find_skip [of earlier "\<lambda>m. includes_str m (''decision: '' @ shortName)"])
    show "\<forall>m \<in> set earlier. \<not> includes_str m (''decision: '' @ shortName)"
      by (rule first)
    show "includes_str (commitMessage rt d) (''decision: '' @ shortName)"
      by (rule commitMessage_names [OF longer(1)])
  qed
  have "findDecision repoName shortName s =
     (map_option parseDecisionFromCommit
        (find (\<lambda>m. includes_str m (''decision: '' @ shortName))
           (take 100 (earlier @ commitMessage rt d # later))), tick s)"
    by (rule findDecision_listed [OF reach repo hist])
  then show ?thesis
    by (simp only: cut hit fst_conv option.map)
qed

theorem findDecision_matches_longer_name_witness:
  "fst (findDecision ''idea-shop'' ''use-db'' pool_store) =
     Some \<lparr> parsed_type = Some ''architecture'', parsed_chosen = Some ''pgbouncer'',
            parsed_confidence = Some (Num (17 / 20)),
            parsed_revisitProbability = Some (Num (1 / 20)) \<rparr>"
proof -
  have reach: "reachable_at pool_store (clock pool_store)"
    by (simp add: pool_store_def)
  have repo: "repos pool_store ''idea-shop'' = Some pool_repository"
    by (simp add: pool_store_def)
  have hist: "history pool_repository (default_branch pool_repository) =
      Some ([] @ commitMessage example_runtime pool_decision #
            [commitMessage example_runtime db_decision,
             ''init: create DECISIONS.log'', ''Initial commit''])"
    by (simp add: pool_repository_def)
  have longer: "name pool_decision = ''use-db'' @ ''-pool''"
    by (simp add: pool_decision_def)
  have "fst (findDecision ''idea-shop'' ''use-db'' pool_store) =
          Some (parseDecisionFromCommit (commitMessage example_runtime pool_decision))"
    by (rule findDecision_matches_longer_name [OF reach repo hist _ _ longer]) simp_all
  then show ?thesis by (simp only: pool_parsed)
qed

subsection \<open>Recording a decision\<close>

text \<open>
  C1. The claim is that a found decision whose own revisit probability is below 0.7 is
  returned unchanged, with no commit, whatever is proposed. The code tests the revisit
  probability of the proposal instead. In \<open>settled_store\<close> the decision \<open>use-database\<close> is
  found with \<open>PostgreSQL\<close> chosen and revisit probability 0.05; the proposal of \<open>MongoDB\<close>
  with revisit probability 0.9 is nevertheless written as a second commit and returned.
\<close>

theorem makeDecision_overrides_settled_decision:
  "fst (findDecision ''idea-shop'' ''use-database'' settled_store)
     = Some \<lparr> parsed_type = Some ''technology-choice'', parsed_chosen = Some ''PostgreSQL'',
              parsed_confidence = Some (Num (17 / 20)),
              parsed_revisitProbability = Some (Num (1 / 20)) \<rparr>
   \<and> commits_on settled_store ''idea-shop'' ''main''
     = [commitMessage example_runtime postgres_decision,
        ''init: create DECISIONS.log'', ''Initial commit'']
   \<and> fst (makeDecision example_runtime ''idea-shop'' ''main'' mongo_decision settled_store)
     = Inr (Recorded mongo_decision)
   \<and> commits_on (snd (makeDecision example_runtime ''idea-shop'' ''main'' mongo_decision
                        settled_store)) ''idea-shop'' ''main''
     = [commitMessage example_runtime mongo_decision,
        commitMessage example_runtime postgres_decision,
        ''init: create DECISIONS.log'', ''Initial commit'']"
proof -
  have found: "fst (findDecision ''idea-shop'' ''use-database'' settled_store)
     = Some \<lparr> parsed_type = Some ''technology-choice'', parsed_chosen = Some ''PostgreSQL'',
              parsed_confidence = Some (Num (17 / 20)),
              parsed_revisitProbability = Some (Num (1 / 20)) \<rparr>"
    by (simp add: ledger_defs example_store_defs postgres_message parse_number_defs)
  have before: "commits_on settled_store ''idea-shop'' ''main''
     = [commitMessage example_runtime postgres_decision,
        ''init: create DECISIONS.log'', ''Initial commit'']"
    by (simp add: ledger_defs example_store_defs postgres_message)
  have returned: "fst (makeDecision example_runtime ''idea-shop'' ''main'' mongo_decision
                         settled_store) = Inr (Recorded mongo_decision)"
    by (simp add: ledger_defs example_store_defs postgres_message mongo_message)
       (simp add: mongo_decision_def)
  have after: "commits_on (snd (makeDecision example_runtime ''idea-shop'' ''main''
                                   mongo_decision settled_store)) ''idea-shop'' ''main''
     = [commitMessage example_runtime mongo_decision,
        commitMessage example_runtime postgres_decision,
        ''init: create DECISIONS.log'', ''Initial commit'']"
    by (simp add: ledger_defs example_store_defs postgres_message mongo_message)
       (simp add: mongo_decision_def)
  show ?thesis
    using found before returned after by (simp only: simp_thms)
qed

text \<open>
  C2, as the claim states it: a found decision with revisit probability 0.9 would be
  revisited only on a blocking signal. \<open>makeDecision\<close> has no such input; the proposal with
  revisit probability 0.9 is written as a second commit with nothing else supplied.
\<close>

theorem makeDecision_revisit_needs_no_signal:
  "fst (findDecision ''idea-shop'' ''use-database'' risky_store)
     = Some \<lparr> parsed_type = Some ''technology-choice'', parsed_chosen = Some ''PostgreSQL'',
              parsed_confidence = Some (Num (3 / 5)),
              parsed_revisitProbability = Some (Num (9 / 10)) \<rparr>
   \<and> fst (makeDecision example_runtime ''idea-shop'' ''main'' mongo_decision risky_store)
     = Inr (Recorded mongo_decision)
   \<and> commits_on (snd (makeDecision example_runtime ''idea-shop'' ''main'' mongo_decision
                        risky_store)) ''idea-shop'' ''main''
     = [commitMessage example_runtime mongo_decision,
        commitMessage example_runtime risky_decision,
        ''init: create DECISIONS.log'', ''Initial commit'']"
proof -
  have found: "fst (findDecision ''idea-shop'' ''use-database'' risky_store)
     = Some \<lparr> parsed_type = Some ''technology-choice'', parsed_chosen = Some ''PostgreSQL'',
              parsed_confidence = Some (Num (3 / 5)),
              parsed_revisitProbability = Some (Num (9 / 10)) \<rparr>"
    by (simp add: ledger_defs example_store_defs risky_store_def risky_message
          parse_number_defs)
  have returned: "fst (makeDecision example_runtime ''idea-shop'' ''main'' mongo_decision
                         risky_store) = Inr (Recorded mongo_decision)"
    by (simp add: ledger_defs example_store_defs risky_store_def risky_message mongo_message)
       (simp add: mongo_decision_def)
  have after: "commits_on (snd (makeDecision example_runtime ''idea-shop'' ''main''
                                   mongo_decision risky_store)) ''idea-shop'' ''main''
     = [commitMessage example_runtime mongo_decision,
        commitMessage example_runtime risky_decision,
        ''init: create DECISIONS.log'', ''Initial commit'']"
    by (simp add: ledger_defs example_store_defs risky_store_def risky_message mongo_message)
       (simp add: mongo_decision_def)
  show ?thesis
    using found returned after by (simp only: simp_thms)
qed

text \<open>
  C2, amended. \<open>makeDecision\<close> takes no blocking signal. When the decision found has a
  revisit probability of at least 0.7, the proposal has one of at least 0.7 as well, and the
  store answers the read and the write of \<open>DECISIONS.log\<close> on the branch, the proposal is
  appended as a new commit on that branch and returned.
\<close>

theorem makeDecision_revisits_without_signal:
  assumes found: "fst (findDecision repoName (name d) s) = Some existing"
    and high_existing: "parsed_revisitProbability existing = Some p" "js_ge p (Num (7 / 10))"
    and high_proposed: "js_ge (revisitProbability d) (Num (7 / 10))"
    and up: "reachable_at s (Suc (clock s))" "reachable_at s (Suc (Suc (clock s)))"
    and repo: "repos s repoName = Some r" "history r branch = Some commits"
      "files r branch ''DECISIONS.log'' = Some logtext"
  shows "fst (makeDecision rt repoName branch d s) = Inr (Recorded d)
         \<and> commits_on (snd (makeDecision rt repoName branch d s)) repoName branch
             = commitMessage rt d # commits"
proof -
  have look: "findDecision repoName (name d) s = (Some existing, tick s)"
    using found findDecision_ticks [of repoName "name d" s]
    by (cases "findDecision repoName (name d) s") simp
  have go: "makeDecision rt repoName branch d s = appendDecision rt repoName branch d (tick s)"
    using makeDecision_found [OF look] js_ge_not_lt [OF high_proposed] by simp
  have a: "reachable_at (tick s) (clock (tick s))"
    and b: "reachable_at (tick s) (Suc (clock (tick s)))"
    and c: "repos (tick s) repoName = Some r"
    using up repo by simp_all
  show ?thesis
    unfolding go
    using appendDecision_appends(1,2) [OF a b c repo(2,3)] by simp
qed

theorem makeDecision_revisits_without_signal_witness:
  "fst (makeDecision example_runtime ''idea-shop'' ''main'' mongo_decision risky_store)
     = Inr (Recorded mongo_decision)
   \<and> commits_on (snd (makeDecision example_runtime ''idea-shop'' ''main'' mongo_decision
                        risky_store)) ''idea-shop'' ''main''
     = [commitMessage example_runtime mongo_decision,
        commitMessage example_runtime risky_decision,
        ''init: create DECISIONS.log'', ''Initial commit'']"
proof -
  obtain r logtext where r: "repos risky_store ''idea-shop'' = Some r"
    and h: "history r ''main'' = Some [commitMessage example_runtime risky_decision,
                                      ''init: create DECISIONS.log'', ''Initial commit'']"
    and f: "files r ''main'' ''DECISIONS.log'' = Some logtext"
    using risky_store_fields(2) by blast
  have found: "fst (findDecision ''idea-shop'' (name mongo_decision) risky_store)
     = Some \<lparr> parsed_type = Some ''technology-choice'', parsed_chosen = Some ''PostgreSQL'',
              parsed_confidence = Some (Num (3 / 5)),
              parsed_revisitProbability = Some (Num (9 / 10)) \<rparr>"
    using risky_found by (simp add: mongo_decision_def)
  have p: "parsed_revisitProbability
             \<lparr> parsed_type = Some ''technology-choice'', parsed_chosen = Some ''PostgreSQL'',
               parsed_confidence = Some (Num (3 / 5)),
               parsed_revisitProbability = Some (Num (9 / 10)) \<rparr> = Some (Num (9 / 10))"
    by simp
  have hi: "js_ge (Num (9 / 10)) (Num (7 / 10))"
    "js_ge (revisitProbability mongo_decision) (Num (7 / 10))"
    by (simp_all add: js_ge_def mongo_decision_def)
  have up: "reachable_at risky_store (Suc (clock risky_store))"
    "reachable_at risky_store (Suc (Suc (clock risky_store)))"
    by (simp_all add: risky_store_fields(1))
  show ?thesis
    by (rule makeDecision_revisits_without_signal [OF found p hi up r h f])
qed

text \<open>
  C6, as the claim states it: an unreachable store would be reported and nothing appended.
  In \<open>outage_store\<close> the store is down for the lookup only. The decision \<open>use-database\<close>
  is already recorded there; proposed again, it is appended a second time and returned.
\<close>

theorem makeDecision_swallows_outage:
  "\<not> reachable_at outage_store (clock outage_store)
   \<and> fst (makeDecision example_runtime ''idea-shop'' ''main'' postgres_decision outage_store)
     = Inr (Recorded postgres_decision)
   \<and> commits_on (snd (makeDecision example_runtime ''idea-shop'' ''main'' postgres_decision
                        outage_store)) ''idea-shop'' ''main''
     = [commitMessage example_runtime postgres_decision,
        commitMessage example_runtime postgres_decision,
        ''init: create DECISIONS.log'', ''Initial commit'']"
proof -
  have down: "\<not> reachable_at outage_store (clock outage_store)"
    by (simp add: outage_store_def ledger_defs example_store_defs postgres_message)
  have returned: "fst (makeDecision example_runtime ''idea-shop'' ''main'' postgres_decision
                         outage_store) = Inr (Recorded postgres_decision)"
    by (simp add: outage_store_def ledger_defs example_store_defs postgres_message)
  have after: "commits_on (snd (makeDecision example_runtime ''idea-shop'' ''main''
                                   postgres_decision outage_store)) ''idea-shop'' ''main''
     = [commitMessage example_runtime postgres_decision,
        commitMessage example_runtime postgres_decision,
        ''init: create DECISIONS.log'', ''Initial commit'']"
    by (simp add: outage_store_def ledger_defs example_store_defs postgres_message)
  show ?thesis
    using down returned after by (simp only: simp_thms)
qed

text \<open>
  C6, amended. When the store cannot be reached for the lookup, \<open>findDecision\<close> answers that
  there is no decision, and \<open>makeDecision\<close> goes on as for a new one. If the store is still
  unreachable at the next request, the read of \<open>DECISIONS.log\<close>, the call fails with the
  store's error and no repository has changed. If the store answers the read and the write,
  the proposal is appended as a new commit and returned.
\<close>

theorem makeDecision_lookup_failure:
  assumes down: "\<not> reachable_at s (clock s)"
  shows "(\<not> reachable_at s (Suc (clock s)) \<longrightarrow>
            fst (makeDecision rt repoName branch d s) = Inl StoreUnavailable
            \<and> repos (snd (makeDecision rt repoName branch d s)) = repos s)
       \<and> (reachable_at s (Suc (clock s)) \<and> reachable_at s (Suc (Suc (clock s)))
            \<and> repos s repoName = Some r \<and> history r branch = Some commits
            \<and> files r branch ''DECISIONS.log'' = Some logtext \<longrightarrow>
            fst (makeDecision rt repoName branch d s) = Inr (Recorded d)
            \<and> commits_on (snd (makeDecision rt repoName branch d s)) repoName branch
                = commitMessage rt d # commits)"
proof -
  have go: "makeDecision rt repoName branch d s = appendDecision rt repoName branch d (tick s)"
    by (simp add: makeDecision_def findDecision_unreachable [OF down])
  have still_down: "fst (appendDecision rt repoName branch d (tick s)) = Inl StoreUnavailable
      \<and> repos (snd (appendDecision rt repoName branch d (tick s))) = repos s"
    if "\<not> reachable_at s (Suc (clock s))"
    using that appendDecision_unreachable [of "tick s" rt repoName branch d] by simp
  have back_up: "fst (appendDecision rt repoName branch d (tick s)) = Inr (Recorded d)
      \<and> commits_on (snd (appendDecision rt repoName branch d (tick s))) repoName branch
           = commitMessage rt d # commits"
    if "reachable_at s (Suc (clock s))" "reachable_at s (Suc (Suc (clock s)))"
      "repos s repoName = Some r" "history r branch = Some commits"
      "files r branch ''DECISIONS.log'' = Some logtext"
  proof -
    have a: "reachable_at (tick s) (clock (tick s))"
      and b: "reachable_at (tick s) (Suc (clock (tick s)))"
      and c: "repos (tick s) repoName = Some r"
      using that by simp_all
    show ?thesis
      using appendDecision_appends(1,2) [OF a b c that(4,5)] by simp
  qed
  show ?thesis
    unfolding go using still_down back_up by blast
qed

theorem makeDecision_lookup_failure_witness:
  "fst (makeDecision example_runtime ''idea-shop'' ''main'' postgres_decision blackout_store)
     = Inl StoreUnavailable
   \<and> repos (snd (makeDecision example_runtime ''idea-shop'' ''main'' postgres_decision
                   blackout_store)) = repos blackout_store
   \<and> fst (makeDecision example_runtime ''idea-shop'' ''main'' postgres_decision outage_store)
     = Inr (Recorded postgres_decision)
   \<and> commits_on (snd (makeDecision example_runtime ''idea-shop'' ''main'' postgres_decision
                        outage_store)) ''idea-shop'' ''main''
     = [commitMessage example_runtime postgres_decision,
        commitMessage example_runtime postgres_decision,
        ''init: create DECISIONS.log'', ''Initial commit'']"
proof -
  obtain r logtext where r: "repos settled_store ''idea-shop'' = Some r"
    and h: "history r ''main'' = Some [commitMessage example_runtime postgres_decision,
                                      ''init: create DECISIONS.log'', ''Initial commit'']"
    and f: "files r ''main'' ''DECISIONS.log'' = Some logtext"
    using settled_store_fields(2) by blast
  have dark: "\<not> reachable_at blackout_store (clock blackout_store)"
    "\<not> reachable_at blackout_store (Suc (clock blackout_store))"
    by (simp_all add: blackout_store_def)
  have dim: "\<not> reachable_at outage_store (clock outage_store)"
    "reachable_at outage_store (Suc (clock outage_store))"
    "reachable_at outage_store (Suc (Suc (clock outage_store)))"
    "repos outage_store ''idea-shop'' = Some r"
    by (simp_all add: outage_store_def settled_store_fields(1) r)
  from makeDecision_lookup_failure [OF dark(1), where rt = example_runtime
      and repoName = "''idea-shop''" and branch = "''main''" and d = postgres_decision] dark(2)
  have one: "fst (makeDecision example_runtime ''idea-shop'' ''main'' postgres_decision
                    blackout_store) = Inl StoreUnavailable
     \<and> repos (snd (makeDecision example_runtime ''idea-shop'' ''main'' postgres_decision
                   blackout_store)) = repos blackout_store"
    by blast
  from makeDecision_lookup_failure [OF dim(1), where rt = example_runtime
      and repoName = "''idea-shop''" and branch = "''main''" and d = postgres_decision
      and r = r and logtext = logtext] dim(2,3,4) h f
  have two: "fst (makeDecision example_runtime ''idea-shop'' ''main'' postgres_decision
                    outage_store) = Inr (Recorded postgres_decision)
     \<and> commits_on (snd (makeDecision example_runtime ''idea-shop'' ''main'' postgres_decision
                        outage_store)) ''idea-shop'' ''main''
     = [commitMessage example_runtime postgres_decision,
        commitMessage example_runtime postgres_decision,
        ''init: create DECISIONS.log'', ''Initial commit'']"
    by blast
  show ?thesis using one two by blast
qed

subsection \<open>Two calls in flight\<close>

text \<open>Three steps of one call, with nothing in between, are \<open>makeDecision\<close>.\<close>

lemma step_returned [simp]: "step rt repoName branch d (Returned r) s = (Returned r, s)"
  by (simp add: step_def)

lemma two_steps_append:
  "(case step rt repoName branch d AtRead s of
      (c, s') \<Rightarrow> step rt repoName branch d c s')
   = (Returned (fst (appendDecision rt repoName branch d s)),
      snd (appendDecision rt repoName branch d s))"
proof (cases "getContent repoName ''DECISIONS.log'' branch s")
  case (Pair g s1)
  show ?thesis
  proof (cases g)
    case (Inl err)
    with Pair show ?thesis by (simp add: step_def appendDecision_def)
  next
    case (Inr cur)
    with Pair show ?thesis
      by (cases "createOrUpdateFileContents repoName ''DECISIONS.log'' (commitMessage rt d)
                  (cur @ ''\<newline>'' @ commitMessage rt d @ ''\<newline>---\<newline>'') branch cur s1")
         (simp add: step_def appendDecision_def split: sum.splits)
  qed
qed

lemma three_steps:
  "(case step rt repoName branch d AtLookup s of
      (c1, s1) \<Rightarrow>
        (case step rt repoName branch d c1 s1 of
           (c2, s2) \<Rightarrow> step rt repoName branch d c2 s2))
   = (Returned (fst (makeDecision rt repoName branch d s)),
      snd (makeDecision rt repoName branch d s))"
proof (cases "findDecision repoName (name d) s")
  case (Pair e s1)
  show ?thesis
  proof (cases "e \<noteq> None \<and> js_lt (revisitProbability d) (Num (7 / 10))")
    case True
    with Pair show ?thesis by (auto simp add: step_def makeDecision_def)
  next
    case False
    with Pair have first: "step rt repoName branch d AtLookup s = (AtRead, s1)"
      and whole: "makeDecision rt repoName branch d s = appendDecision rt repoName branch d s1"
      by (auto simp add: step_def makeDecision_def split: option.splits)
    show ?thesis
      using two_steps_append [of rt repoName branch d s1] by (simp add: first whole)
  qed
qed

text \<open>
  One call after the other: the second proposal for \<open>use-database\<close>, itself of low revisit
  probability, finds the first decision and returns it. Interleaved, with both lookups
  before either write, neither call finds anything.
\<close>

lemma sequential_calls_reuse:
  "fst (makeDecision example_runtime ''idea-shop'' ''main'' mongo_cautious settled_store)
     = Inr (Existing \<lparr> parsed_type = Some ''technology-choice'',
                        parsed_chosen = Some ''PostgreSQL'',
                        parsed_confidence = Some (Num (17 / 20)),
                        parsed_revisitProbability = Some (Num (1 / 20)) \<rparr>)"
  by (simp add: ledger_defs example_store_defs postgres_message mongo_cautious_def
        parse_number_defs)

lemma both_lookups_find_nothing:
  "fst (run_two example_runtime ''idea-shop'' (''main'', postgres_decision)
          (''main'', mongo_cautious) [First, Second] (AtLookup, AtLookup, main_store)) = AtRead
   \<and> fst (snd (run_two example_runtime ''idea-shop'' (''main'', postgres_decision)
          (''main'', mongo_cautious) [First, Second] (AtLookup, AtLookup, main_store))) = AtRead"
  by (simp add: step_def ledger_defs example_store_defs postgres_decision_def mongo_cautious_def)

text \<open>
  C9, as the claim states it: two concurrent calls for the same name would never both
  observe that no decision exists and both append. Here the first call looks up, the second
  looks up, the first reads and writes the log, the second reads and writes the log: both
  return their own proposal, and the branch holds a commit for each.
\<close>

theorem concurrent_calls_both_append:
  "fst (run_two example_runtime ''idea-shop'' (''main'', postgres_decision)
          (''main'', mongo_cautious) [First, Second, First, First, Second, Second]
          (AtLookup, AtLookup, main_store)) = Returned (Inr (Recorded postgres_decision))
   \<and> fst (snd (run_two example_runtime ''idea-shop'' (''main'', postgres_decision)
          (''main'', mongo_cautious) [First, Second, First, First, Second, Second]
          (AtLookup, AtLookup, main_store))) = Returned (Inr (Recorded mongo_cautious))
   \<and> commits_on (snd (snd (run_two example_runtime ''idea-shop'' (''main'', postgres_decision)
          (''main'', mongo_cautious) [First, Second, First, First, Second, Second]
          (AtLookup, AtLookup, main_store)))) ''idea-shop'' ''main''
       = [commitMessage example_runtime mongo_cautious,
          commitMessage example_runtime postgres_decision,
          ''init: create DECISIONS.log'', ''Initial commit'']"
  by (simp add: step_def ledger_defs example_store_defs postgres_message cautious_message)

text \<open>
  C9, amended. The lookup and the append of one call are not serialised against another
  call. The one check is the store's, on the write: it carries the blob sha of the
  \<open>DECISIONS.log\<close> this call has read. When two calls on the same branch have both passed
  their lookup and both read the log before either writes, the write of the first is
  accepted and the write of the second is rejected with a conflict; the second call appends
  nothing and returns the error, without a retry.
\<close>

theorem stale_write_rejected:
  assumes up: "reachable_at s (clock s)" "reachable_at s (Suc (clock s))"
      "reachable_at s (Suc (Suc (clock s)))" "reachable_at s (Suc (Suc (Suc (clock s))))"
    and repo: "repos s repoName = Some r" "history r branch = Some commits"
      "files r branch ''DECISIONS.log'' = Some logtext"
  shows "fst (run_two rt repoName (branch, dA) (branch, dB) [First, Second, First, Second]
                (AtRead, AtRead, s)) = Returned (Inr (Recorded dA))
       \<and> fst (snd (run_two rt repoName (branch, dA) (branch, dB)
                      [First, Second, First, Second] (AtRead, AtRead, s)))
           = Returned (Inl Conflict)
       \<and> commits_on (snd (snd (run_two rt repoName (branch, dA) (branch, dB)
                      [First, Second, First, Second] (AtRead, AtRead, s)))) repoName branch
           = commitMessage rt dA # commits"
  using assms
  by (simp add: step_def store_call_defs commits_on_def)

theorem stale_write_rejected_witness:
  "fst (run_two example_runtime ''idea-shop'' (''main'', postgres_decision)
          (''main'', mongo_cautious) [First, Second, First, Second] (AtRead, AtRead, main_store))
     = Returned (Inr (Recorded postgres_decision))
   \<and> fst (snd (run_two example_runtime ''idea-shop'' (''main'', postgres_decision)
          (''main'', mongo_cautious) [First, Second, First, Second]
          (AtRead, AtRead, main_store))) = Returned (Inl Conflict)
   \<and> commits_on (snd (snd (run_two example_runtime ''idea-shop'' (''main'', postgres_decision)
          (''main'', mongo_cautious) [First, Second, First, Second]
          (AtRead, AtRead, main_store)))) ''idea-shop'' ''main''
       = [commitMessage example_runtime postgres_decision,
          ''init: create DECISIONS.log'', ''Initial commit'']"
proof -
  have up: "reachable_at main_store (clock main_store)"
    "reachable_at main_store (Suc (clock main_store))"
    "reachable_at main_store (Suc (Suc (clock main_store)))"
    "reachable_at main_store (Suc (Suc (Suc (clock main_store))))"
    by (simp_all add: main_store_def)
  have repo: "repos main_store ''idea-shop'' = Some main_repository"
    "history main_repository ''main'' = Some [''init: create DECISIONS.log'', ''Initial commit'']"
    "files main_repository ''main'' ''DECISIONS.log'' = Some ''# Decision History\<newline>\<newline>''"
    by (simp_all add: main_store_def main_repository_def)
  show ?thesis
    by (rule stale_write_rejected [OF up repo])
qed

subsection \<open>The commit message\<close>

lemma split_on_Cons:
  "split_on d (c # cs) =
     (if c = d then [] # split_on d cs
      else (case split_on d cs of [] \<Rightarrow> [[c]] | x # xs \<Rightarrow> (c # x) # xs))"
  by (simp add: split_on_def)

lemma split_on_Nil: "split_on d [] = [[]]"
  by (simp add: split_on_def)

lemma split_on_plain: "d \<notin> set a \<Longrightarrow> split_on d a = [a]"
  by (induction a) (auto simp add: split_on_Cons split_on_Nil)

lemma split_on_sep: "d \<notin> set a \<Longrightarrow> split_on d (a @ d # rest) = a # split_on d rest"
  by (induction a) (auto simp add: split_on_Cons)

lemma dropWhile_keeps: "ys \<noteq> [] \<Longrightarrow> \<not> P (hd ys) \<Longrightarrow> dropWhile P ys = ys"
  by (cases ys) simp_all

lemma trim_trimmed: "trimmed t \<Longrightarrow> trim t = t"
proof (cases "t = []")
  case True
  then show ?thesis by (simp add: trim_def)
next
  case False
  assume "trimmed t"
  with False have front: "\<not> is_space (hd t)" and rear: "\<not> is_space (last t)"
    by (simp_all add: trimmed_def)
  have one: "dropWhile is_space t = t"
    using False front by (rule dropWhile_keeps)
  have "\<not> is_space (hd (rev t))"
    using False rear by (simp add: hd_rev)
  with False have two: "dropWhile is_space (rev t) = rev t"
    by (simp add: dropWhile_keeps)
  show ?thesis by (simp add: trim_def one two)
qed

lemma trim_after_space: "trim (CHR '' '' # t) = trim t"
  by (simp add: trim_def is_space_def)

text \<open>The no-break space is white space for \<open>trim\<close>, as in the runtime.\<close>

lemma trim_no_break_space: "trim (CHR 0xA0 # ''X'' @ [CHR 0xA0]) = ''X''"
  by (simp add: trim_def is_space_def)

lemma padded_value_not_plain: "\<not> plain_value (CHR 0xA0 # ''X'' @ [CHR 0xA0])"
  by (simp add: plain_value_def trimmed_def is_space_def)

lemma second_piece_value:
  "CHR '':'' \<notin> set label \<Longrightarrow> CHR '':'' \<notin> set v \<Longrightarrow>
   second_piece (label @ CHR '':'' # CHR '' '' # v) = CHR '' '' # v"
  by (simp add: second_piece_def split_on_sep split_on_plain)

lemma commitMessage_lines:
  assumes "CHR 0x0A \<notin> set (name d)" "CHR 0x0A \<notin> set (type d)"
    "CHR 0x0A \<notin> set (join '', '' (alternatives d))" "CHR 0x0A \<notin> set (chosen d)"
    "CHR 0x0A \<notin> set (decision.reason d)" "CHR 0x0A \<notin> set (isoNow rt)"
    "CHR 0x0A \<notin> set (numToString rt (confidence d))"
    "CHR 0x0A \<notin> set (numToString rt (revisitProbability d))"
  shows "split_on CHR 0x0A (commitMessage rt d) =
     [''decision: '' @ name d,
      [],
      ''Decision Type: '' @ type d,
      ''Alternatives Considered: '' @ join '', '' (alternatives d),
      ''Chosen: '' @ chosen d,
      ''Reason: '' @ decision.reason d,
      ''Confidence: '' @ numToString rt (confidence d),
      ''Revisit Probability: '' @ numToString rt (revisitProbability d),
      ''Timestamp: '' @ isoNow rt,
      []]"
  using assms
  by (simp add: commitMessage_def split_on_sep split_on_Cons split_on_Nil)

lemma parse_line_type:
  "CHR '':'' \<notin> set t \<Longrightarrow>
   parse_line acc (''Decision Type: '' @ t) = acc\<lparr>parsed_type := Some (trim t)\<rparr>"
  by (simp add: parse_line_def second_piece_def split_on_Cons split_on_plain trim_after_space)

lemma parse_line_chosen:
  "CHR '':'' \<notin> set t \<Longrightarrow>
   parse_line acc (''Chosen: '' @ t) = acc\<lparr>parsed_chosen := Some (trim t)\<rparr>"
  by (simp add: parse_line_def second_piece_def split_on_Cons split_on_plain trim_after_space)

lemma parse_line_confidence:
  "CHR '':'' \<notin> set t \<Longrightarrow>
   parse_line acc (''Confidence: '' @ t)
     = acc\<lparr>parsed_confidence := Some (parseFloat (CHR '' '' # t))\<rparr>"
  by (simp add: parse_line_def second_piece_def split_on_Cons split_on_plain)

lemma parse_line_revisit:
  "CHR '':'' \<notin> set t \<Longrightarrow>
   parse_line acc (''Revisit Probability: '' @ t)
     = acc\<lparr>parsed_revisitProbability := Some (parseFloat (CHR '' '' # t))\<rparr>"
  by (simp add: parse_line_def second_piece_def split_on_Cons split_on_plain)

lemma parse_line_other:
  "parse_line acc (''decision: '' @ t) = acc"
  "parse_line acc [] = acc"
  "parse_line acc (''Alternatives Considered: '' @ t) = acc"
  "parse_line acc (''Reason: '' @ t) = acc"
  "parse_line acc (''Timestamp: '' @ t) = acc"
  by (simp_all add: parse_line_def)

text \<open>
  C7, as the claim states it: the message would hold exactly the contract's fields, and the
  parser would recover the chosen alternative. The message of \<open>redis_decision\<close> has a first
  line \<open>decision: <name>\<close> and a \<open>Timestamp\<close> line besides them, and the chosen alternative
  \<open>Redis: cluster mode\<close> is read back as \<open>Redis\<close>.
\<close>

theorem commit_message_loses_colon_value:
  "split_on CHR 0x0A (commitMessage example_runtime redis_decision) =
     [''decision: use-cache'',
      [],
      ''Decision Type: technology-choice'',
      ''Alternatives Considered: Redis: cluster mode, Memcached'',
      ''Chosen: Redis: cluster mode'',
      ''Reason: Needs persistence'',
      ''Confidence: 0.85'',
      ''Revisit Probability: 0.05'',
      ''Timestamp: 2025-01-01T00:00:00.000Z'',
      []]
   \<and> chosen redis_decision = ''Redis: cluster mode''
   \<and> parsed_chosen (parseDecisionFromCommit (commitMessage example_runtime redis_decision))
       = Some ''Redis''"
  by (simp add: redis_decision_def example_runtime_def example_numToString_def
        commitMessage_def parseDecisionFromCommit_def parse_line_def second_piece_def
        empty_parsed_def split_on_def trim_def is_space_def)

text \<open>
  C7, amended. For a decision whose text fields are each on one line, the commit message
  consists of these lines in this order: \<open>decision: <name>\<close>, an empty line,
  \<open>Decision Type\<close>, \<open>Alternatives Considered\<close>, \<open>Chosen\<close>, \<open>Reason\<close>, \<open>Confidence\<close>,
  \<open>Revisit Probability\<close>, \<open>Timestamp\<close>, and a final line break. When moreover the type and
  the chosen alternative contain no colon and have no white space at either end, and the two
  numbers are printed so that they read back, \<open>parseDecisionFromCommit\<close> recovers the type,
  the chosen alternative, the confidence and the revisit probability.
\<close>

theorem commit_message_round_trip:
  assumes lines: "single_line (name d)" "single_line (type d)"
      "single_line (join '', '' (alternatives d))" "single_line (chosen d)"
      "single_line (decision.reason d)" "single_line (isoNow rt)"
    and plain: "plain_value (type d)" "plain_value (chosen d)"
    and nums: "reads_back rt (confidence d)" "reads_back rt (revisitProbability d)"
  shows "split_on CHR 0x0A (commitMessage rt d) =
           [''decision: '' @ name d,
            [],
            ''Decision Type: '' @ type d,
            ''Alternatives Considered: '' @ join '', '' (alternatives d),
            ''Chosen: '' @ chosen d,
            ''Reason: '' @ decision.reason d,
            ''Confidence: '' @ numToString rt (confidence d),
            ''Revisit Probability: '' @ numToString rt (revisitProbability d),
            ''Timestamp: '' @ isoNow rt,
            []]
         \<and> parseDecisionFromCommit (commitMessage rt d) =
           \<lparr> parsed_type = Some (type d), parsed_chosen = Some (chosen d),
             parsed_confidence = Some (confidence d),
             parsed_revisitProbability = Some (revisitProbability d) \<rparr>"
proof -
  have no_newline: "CHR 0x0A \<notin> set (name d)" "CHR 0x0A \<notin> set (type d)"
    "CHR 0x0A \<notin> set (join '', '' (alternatives d))" "CHR 0x0A \<notin> set (chosen d)"
    "CHR 0x0A \<notin> set (decision.reason d)" "CHR 0x0A \<notin> set (isoNow rt)"
    "CHR 0x0A \<notin> set (numToString rt (confidence d))"
    "CHR 0x0A \<notin> set (numToString rt (revisitProbability d))"
    using lines nums by (simp_all add: single_line_def reads_back_def)
  have colon: "CHR '':'' \<notin> set (type d)" "CHR '':'' \<notin> set (chosen d)"
    "CHR '':'' \<notin> set (numToString rt (confidence d))"
    "CHR '':'' \<notin> set (numToString rt (revisitProbability d))"
    using plain nums by (simp_all add: plain_value_def reads_back_def)
  have vals: "trim (type d) = type d" "trim (chosen d) = chosen d"
    "parseFloat (CHR '' '' # numToString rt (confidence d)) = confidence d"
    "parseFloat (CHR '' '' # numToString rt (revisitProbability d)) = revisitProbability d"
    using plain nums by (simp_all add: plain_value_def reads_back_def trim_trimmed)
  note split = commitMessage_lines [OF no_newline]
  have "parseDecisionFromCommit (commitMessage rt d) =
          empty_parsed\<lparr>parsed_type := Some (trim (type d)),
                       parsed_chosen := Some (trim (chosen d)),
                       parsed_confidence :=
                         Some (parseFloat (CHR '' '' # numToString rt (confidence d))),
                       parsed_revisitProbability :=
                         Some (parseFloat (CHR '' '' # numToString rt (revisitProbability d)))\<rparr>"
    unfolding parseDecisionFromCommit_def split
    by (simp only: foldl.simps parse_line_other parse_line_type [OF colon(1)]
          parse_line_chosen [OF colon(2)] parse_line_confidence [OF colon(3)]
          parse_line_revisit [OF colon(4)])
  then have "parseDecisionFromCommit (commitMessage rt d) =
           \<lparr> parsed_type = Some (type d), parsed_chosen = Some (chosen d),
             parsed_confidence = Some (confidence d),
             parsed_revisitProbability = Some (revisitProbability d) \<rparr>"
    by (simp add: vals empty_parsed_def)
  with split show ?thesis by (simp only: simp_thms)
qed

theorem commit_message_round_trip_witness:
  "parseDecisionFromCommit (commitMessage example_runtime postgres_decision) =
     \<lparr> parsed_type = Some ''technology-choice'', parsed_chosen = Some ''PostgreSQL'',
       parsed_confidence = Some (Num (17 / 20)),
       parsed_revisitProbability = Some (Num (1 / 20)) \<rparr>"
proof -
  have lines: "single_line (name postgres_decision)" "single_line (type postgres_decision)"
    "single_line (join '', '' (alternatives postgres_decision))"
    "single_line (chosen postgres_decision)"
    "single_line (decision.reason postgres_decision)" "single_line (isoNow example_runtime)"
    by (simp_all add: single_line_def postgres_decision_def example_runtime_def)
  have plain: "plain_value (type postgres_decision)" "plain_value (chosen postgres_decision)"
    by (simp_all add: plain_value_def trimmed_def is_space_def postgres_decision_def)
  have nums: "reads_back example_runtime (confidence postgres_decision)"
    "reads_back example_runtime (revisitProbability postgres_decision)"
    by (simp_all add: reads_back_def postgres_decision_def example_runtime_def
          example_numToString_def parse_number_defs)
  from commit_message_round_trip [OF lines plain nums]
  show ?thesis by (simp add: postgres_decision_def)
qed

section \<open>Properties of the analysis evaluator\<close>

lemmas analysis_defs =
  validateCompleteness_def content_includes_def length_gt_def count_line_matches_def
  is_line_terminator_def lower_char_def

lemma scenario_counts:
  "count_line_matches (\<lambda>c. c) ''##'' ''Unknown'' scenario_analysis = 4"
  "count_triple_hash scenario_risks = 6"
  "count_line_matches lower_char ''###'' ''Competitor'' scenario_competitive = 2"
  by (simp_all add: analysis_defs scenario_analysis_def scenario_risks_def
        scenario_competitive_def)

lemma scenario_flags:
  "hasAnalysis (validateCompleteness (Some scenario_analysis) (Some scenario_mvp)
                  (Some scenario_competitive) (Some scenario_risks))"
  "hasMVP (validateCompleteness (Some scenario_analysis) (Some scenario_mvp)
             (Some scenario_competitive) (Some scenario_risks))"
  "hasCompetitive (validateCompleteness (Some scenario_analysis) (Some scenario_mvp)
                     (Some scenario_competitive) (Some scenario_risks))"
  "hasRisks (validateCompleteness (Some scenario_analysis) (Some scenario_mvp)
               (Some scenario_competitive) (Some scenario_risks))"
  by (simp_all add: validateCompleteness_def Let_def content_includes_def length_gt_def
        scenario_analysis_def scenario_mvp_def scenario_competitive_def scenario_risks_def)

text \<open>
  C5, as the claim states it: with 4 unknowns, 6 risks and 2 competitors the reason would
  name the competitor count. On the scenario's artifacts the verdict is incomplete with
  these three counts, and the reason is the one fixed text for every incomplete verdict,
  which does not mention competitors.
\<close>

theorem analysis_reason_is_generic:
  "\<not> complete (validateCompleteness (Some scenario_analysis) (Some scenario_mvp)
                  (Some scenario_competitive) (Some scenario_risks))
   \<and> unknownsCount (validateCompleteness (Some scenario_analysis) (Some scenario_mvp)
                      (Some scenario_competitive) (Some scenario_risks)) = 4
   \<and> risksCount (validateCompleteness (Some scenario_analysis) (Some scenario_mvp)
                   (Some scenario_competitive) (Some scenario_risks)) = 6
   \<and> competitorsCount (validateCompleteness (Some scenario_analysis) (Some scenario_mvp)
                         (Some scenario_competitive) (Some scenario_risks)) = 2
   \<and> reason (validateCompleteness (Some scenario_analysis) (Some scenario_mvp)
               (Some scenario_competitive) (Some scenario_risks))
       = ''Incomplete analysis - need more depth''
   \<and> \<not> includes_str (map lower_char (reason (validateCompleteness (Some scenario_analysis)
          (Some scenario_mvp) (Some scenario_competitive) (Some scenario_risks))))
          ''competitor''"
  by (simp add: validateCompleteness_def Let_def scenario_counts)
     (simp add: lower_char_def)

text \<open>
  C5, amended. For every artifact set in which the analysis has 4 headings matching
  \<open>/##.*Unknown/\<close>, the risk assessment 6 occurrences of \<open>###\<close> and the competitive analysis
  2 headings matching \<open>/###.*Competitor/i\<close>, the verdict is incomplete, its reason is
  \<open>Incomplete analysis - need more depth\<close>, and the three counts are reported in
  \<open>unknownsCount\<close>, \<open>risksCount\<close> and \<open>competitorsCount\<close>.
\<close>

theorem analysis_incomplete_below_counts:
  assumes "count_line_matches (\<lambda>c. c) ''##'' ''Unknown'' a = 4"
    and "count_triple_hash r = 6"
    and "count_line_matches lower_char ''###'' ''Competitor'' c = 2"
  shows "\<not> complete (validateCompleteness (Some a) mvp (Some c) (Some r))
       \<and> reason (validateCompleteness (Some a) mvp (Some c) (Some r))
           = ''Incomplete analysis - need more depth''
       \<and> unknownsCount (validateCompleteness (Some a) mvp (Some c) (Some r)) = 4
       \<and> risksCount (validateCompleteness (Some a) mvp (Some c) (Some r)) = 6
       \<and> competitorsCount (validateCompleteness (Some a) mvp (Some c) (Some r)) = 2"
  using assms by (simp add: validateCompleteness_def Let_def)

theorem analysis_incomplete_below_counts_witness:
  "\<not> complete (validateCompleteness (Some scenario_analysis) (Some scenario_mvp)
                  (Some scenario_competitive) (Some scenario_risks))
   \<and> reason (validateCompleteness (Some scenario_analysis) (Some scenario_mvp)
               (Some scenario_competitive) (Some scenario_risks))
       = ''Incomplete analysis - need more depth''
   \<and> unknownsCount (validateCompleteness (Some scenario_analysis) (Some scenario_mvp)
                      (Some scenario_competitive) (Some scenario_risks)) = 4
   \<and> risksCount (validateCompleteness (Some scenario_analysis) (Some scenario_mvp)
                   (Some scenario_competitive) (Some scenario_risks)) = 6
   \<and> competitorsCount (validateCompleteness (Some scenario_analysis) (Some scenario_mvp)
                         (Some scenario_competitive) (Some scenario_risks)) = 2"
  by (rule analysis_incomplete_below_counts [OF scenario_counts])

end
